theory Spec2Isabelle
  imports Complex_Main "HOL-Library.Multiset"
begin

section \<open>Values shared by the three components\<close>

text \<open>
  The repository holds three React components that each keep a playlist and a player
  state: \<open>App\<close> (prefix \<open>App_\<close>), \<open>AudioPlayer\<close> (prefix \<open>AP_\<close>) and
  \<open>PlaylistManager\<close> (prefix \<open>PM_\<close>). Each \<open>useState\<close> cell is a record field, each
  handler a function from the state before the call to the state after it, with all the
  state updates of the call applied. A handler, also one registered as a listener inside
  an effect, is applied to the state that is current when it runs. The asynchronous steps
  of \<open>saveTracksToStorage\<close> and \<open>loadTracksFromStorage\<close> are run to their end in one
  step.

  A JavaScript number that can be \<open>NaN\<close> or infinite (a duration) is a \<open>jsnumber\<close>;
  slider positions, volumes and playback positions are finite and are \<open>real\<close>.
  A JavaScript string is a \<open>string\<close>.
\<close>

datatype jsnumber = Num real | NaN | PosInfinity | NegInfinity

text \<open>\<open>s.startsWith(p)\<close>\<close>

definition startsWith :: "string \<Rightarrow> string \<Rightarrow> bool" where
  "startsWith s p = (take (length p) s = p)"

text \<open>
  \<open>name.replace(/\.[^/.]+$/, '')\<close>: the match starts at a dot, runs over one or more
  characters that are neither \<open>/\<close> nor \<open>.\<close>, and ends at the end of the string, so it can
  only start at the last dot; without a match the string is returned as it is.
\<close>

definition stripExtension :: "string \<Rightarrow> string" where
  "stripExtension name =
     (let r = rev name;
          ext = takeWhile (\<lambda>c. c \<noteq> CHR ''.'') r;
          rest = dropWhile (\<lambda>c. c \<noteq> CHR ''.'') r
      in if rest = [] \<or> ext = [] \<or> CHR ''/'' \<in> set ext then name else rev (tl rest))"

text \<open>\<open>xs[i]\<close> of a JavaScript array: \<open>undefined\<close> outside the array.\<close>

definition nth_opt :: "'a list \<Rightarrow> nat \<Rightarrow> 'a option" where
  "nth_opt xs i = (if i < length xs then Some (xs ! i) else None)"

definition js_at :: "'a list \<Rightarrow> int \<Rightarrow> 'a option" where
  "js_at xs i = (if 0 \<le> i then nth_opt xs (nat i) else None)"

text \<open>\<open>xs.findIndex(p)\<close>: the first index whose element satisfies \<open>p\<close>, or \<open>-1\<close>.\<close>

fun findIndex :: "('a \<Rightarrow> bool) \<Rightarrow> 'a list \<Rightarrow> int" where
  "findIndex p [] = -1"
| "findIndex p (x # xs) =
     (if p x then 0 else (let i = findIndex p xs in if i = -1 then -1 else i + 1))"

subsection \<open>Files and upload probes\<close>

text \<open>A browser \<open>File\<close>: its name, its declared MIME type and its bytes.\<close>

record js_file =
  file_name :: string
  file_type :: string
  file_bytes :: string

definition file_size :: "js_file \<Rightarrow> nat" where
  "file_size f = length (file_bytes f)"

text \<open>
  What the platform answers while one file of a selection is processed:
  \<open>objectUrl\<close> is the result of \<open>URL.createObjectURL(file)\<close>, \<open>now\<close> the text of
  \<open>Date.now()\<close>, \<open>rnd\<close> the text of \<open>Math.random().toString(36)\<close>, and \<open>metadata\<close> the
  \<open>audio.duration\<close> read when the probe \<open>new Audio(url)\<close> fires \<open>loadedmetadata\<close>
  (\<open>None\<close> when the media cannot be decoded and the event never fires).
\<close>

record upload =
  upfile :: js_file
  objectUrl :: string
  now :: string
  rnd :: string
  metadata :: "jsnumber option"

subsection \<open>The media element\<close>

text \<open>
  The \<open>HTMLAudioElement\<close> behind \<open>audioRef\<close>, as far as the handlers write to it.
  \<open>loads\<close> counts the runs of the resource load algorithm, which a change of \<open>src\<close>
  and a call of \<open>load()\<close> each start; a load resets the playback position and pauses.
  \<open>play()\<close> is taken to start playback. Assigning a volume outside \<open>[0,1]\<close> throws
  \<open>IndexSizeError\<close>.
\<close>

record audio_el =
  src :: "string option"
  paused :: bool
  el_currentTime :: real
  el_duration :: jsnumber
  el_volume :: real
  loads :: nat

datatype dom_exception = IndexSizeError

definition new_audio :: audio_el where
  "new_audio = \<lparr>src = None, paused = True, el_currentTime = 0, el_duration = NaN,
                 el_volume = 1, loads = 0\<rparr>"

definition load_el :: "audio_el \<Rightarrow> audio_el" where
  "load_el a = a\<lparr>paused := True, el_currentTime := 0, loads := loads a + 1\<rparr>"

definition set_src :: "string \<Rightarrow> audio_el \<Rightarrow> audio_el" where
  "set_src u a = load_el (a\<lparr>src := Some u\<rparr>)"

definition play_el :: "audio_el \<Rightarrow> audio_el" where
  "play_el a = a\<lparr>paused := False\<rparr>"

definition pause_el :: "audio_el \<Rightarrow> audio_el" where
  "pause_el a = a\<lparr>paused := True\<rparr>"

definition set_volume :: "real \<Rightarrow> audio_el \<Rightarrow> dom_exception + audio_el" where
  "set_volume v a = (if 0 \<le> v \<and> v \<le> 1 then Inr (a\<lparr>el_volume := v\<rparr>) else Inl IndexSizeError)"

text \<open>
  A handler that can be left by an exception returns \<open>Inl (e, s)\<close>: the exception and the
  state with the updates made before it was thrown; \<open>outcome\<close> is the state the component
  continues with.
\<close>

type_synonym 's result = "(dom_exception \<times> 's) + 's"

definition outcome :: "'s result \<Rightarrow> 's" where
  "outcome r = (case r of Inl (e, s) \<Rightarrow> s | Inr s \<Rightarrow> s)"

subsection \<open>Tracks of App and AudioPlayer\<close>

text \<open>\<open>interface Track\<close> of App and \<open>interface AudioFile\<close> of AudioPlayer.\<close>

record track =
  track_id :: string
  name :: string
  url :: string
  track_duration :: jsnumber

section \<open>App\<close>

record app_state =
  tracks :: "track list"
  currentTrack :: "track option"
  isPlaying :: bool
  currentTime :: real
  duration :: jsnumber
  volume :: real
  isMuted :: bool
  audioRef :: "audio_el option"

text \<open>The state at mount, with the track list restored from the store.\<close>

definition App_init :: "track list \<Rightarrow> app_state" where
  "App_init saved =
     \<lparr>tracks = saved, currentTrack = None, isPlaying = False, currentTime = 0,
      duration = Num 0, volume = 1, isMuted = False, audioRef = Some new_audio\<rparr>"

text \<open>
  \<open>handleFileUpload\<close> starts one probe for each file whose type starts with \<open>audio/\<close>;
  the track is appended by the probe's \<open>loadedmetadata\<close> listener.
\<close>

definition App_handleFileUpload :: "upload list \<Rightarrow> upload list" where
  "App_handleFileUpload files = filter (\<lambda>u. startsWith (file_type (upfile u)) ''audio/'') files"

definition App_newTrack :: "upload \<Rightarrow> jsnumber \<Rightarrow> track" where
  "App_newTrack u d =
     \<lparr>track_id = now u @ rnd u,
      name = stripExtension (file_name (upfile u)),
      url = objectUrl u,
      track_duration = d\<rparr>"

definition App_probeLoaded :: "upload \<Rightarrow> app_state \<Rightarrow> app_state" where
  "App_probeLoaded u s =
     (case metadata u of
        None \<Rightarrow> s
      | Some d \<Rightarrow> s\<lparr>tracks := tracks s @ [App_newTrack u d]\<rparr>)"

text \<open>
  \<open>handlePlay(track?)\<close>. \<open>track !== currentTrack\<close> compares object identity; two track
  objects of one session differ in their \<open>url\<close>, so identity is equality of the records.
\<close>

definition App_handlePlay :: "track option \<Rightarrow> app_state \<Rightarrow> app_state" where
  "App_handlePlay track s =
     (case audioRef s of
        None \<Rightarrow> s
      | Some audio \<Rightarrow>
          (let (s1, a1) =
                 (case track of
                    None \<Rightarrow> (s, audio)
                  | Some t \<Rightarrow>
                      if Some t \<noteq> currentTrack s
                      then (s\<lparr>currentTrack := Some t\<rparr>, load_el (set_src (url t) audio))
                      else (s, audio))
           in if isPlaying s
              then s1\<lparr>audioRef := Some (pause_el a1), isPlaying := False\<rparr>
              else s1\<lparr>audioRef := Some (play_el a1), isPlaying := True\<rparr>))"

definition App_handlePrevious :: "app_state \<Rightarrow> app_state" where
  "App_handlePrevious s =
     (case currentTrack s of
        None \<Rightarrow> s
      | Some c \<Rightarrow>
          (let currentIndex = findIndex (\<lambda>t. track_id t = track_id c) (tracks s);
               previousIndex = (if currentIndex > 0 then currentIndex - 1
                                else int (length (tracks s)) - 1)
           in case js_at (tracks s) previousIndex of
                None \<Rightarrow> s
              | Some t \<Rightarrow> App_handlePlay (Some t) s))"

definition App_handleNext :: "app_state \<Rightarrow> app_state" where
  "App_handleNext s =
     (case currentTrack s of
        None \<Rightarrow> s
      | Some c \<Rightarrow>
          (let currentIndex = findIndex (\<lambda>t. track_id t = track_id c) (tracks s);
               nextIndex = (if currentIndex < int (length (tracks s)) - 1 then currentIndex + 1
                            else 0)
           in case js_at (tracks s) nextIndex of
                None \<Rightarrow> s
              | Some t \<Rightarrow> App_handlePlay (Some t) s))"

definition App_handleSeek :: "real \<Rightarrow> app_state \<Rightarrow> app_state" where
  "App_handleSeek newTime s =
     (case audioRef s of
        None \<Rightarrow> s
      | Some audio \<Rightarrow> s\<lparr>audioRef := Some (audio\<lparr>el_currentTime := newTime\<rparr>),
                        currentTime := newTime\<rparr>)"

definition App_handleVolumeChange :: "real \<Rightarrow> app_state \<Rightarrow> app_state result" where
  "App_handleVolumeChange newVolume s =
     (case audioRef s of
        None \<Rightarrow> Inr s
      | Some audio \<Rightarrow>
          (case set_volume newVolume audio of
             Inl e \<Rightarrow> Inl (e, s)
           | Inr a \<Rightarrow> Inr (s\<lparr>audioRef := Some a, volume := newVolume,
                             isMuted := (newVolume = 0)\<rparr>)))"

text \<open>\<open>volume || 0.5\<close> is \<open>0.5\<close> when the stored volume is \<open>0\<close>.\<close>

definition App_toggleMute :: "app_state \<Rightarrow> app_state result" where
  "App_toggleMute s =
     (case audioRef s of
        None \<Rightarrow> Inr s
      | Some audio \<Rightarrow>
          if isMuted s
          then (case set_volume (if volume s \<noteq> 0 then volume s else 0.5) audio of
                  Inl e \<Rightarrow> Inl (e, s)
                | Inr a \<Rightarrow> Inr (s\<lparr>audioRef := Some a, isMuted := False\<rparr>))
          else (case set_volume 0 audio of
                  Inl e \<Rightarrow> Inl (e, s)
                | Inr a \<Rightarrow> Inr (s\<lparr>audioRef := Some a, isMuted := True\<rparr>)))"

definition App_deleteTrack :: "string \<Rightarrow> app_state \<Rightarrow> app_state" where
  "App_deleteTrack trackId s =
     (let s1 = s\<lparr>tracks := filter (\<lambda>t. track_id t \<noteq> trackId) (tracks s)\<rparr>
      in if map_option track_id (currentTrack s) = Some trackId
         then s1\<lparr>currentTrack := None, isPlaying := False,
                 audioRef := map_option (\<lambda>a. set_src '''' (pause_el a)) (audioRef s)\<rparr>
         else s1)"

text \<open>The listeners on the media element.\<close>

definition App_handleTimeUpdate :: "app_state \<Rightarrow> app_state" where
  "App_handleTimeUpdate s =
     (case audioRef s of None \<Rightarrow> s | Some audio \<Rightarrow> s\<lparr>currentTime := el_currentTime audio\<rparr>)"

definition App_handleLoadedMetadata :: "app_state \<Rightarrow> app_state" where
  "App_handleLoadedMetadata s =
     (case audioRef s of None \<Rightarrow> s | Some audio \<Rightarrow> s\<lparr>duration := el_duration audio\<rparr>)"

definition App_handleEnded :: "app_state \<Rightarrow> app_state" where
  "App_handleEnded s = App_handleNext s"

subsection \<open>What the page lets happen\<close>

text \<open>
  One event is a listener of an upload probe, a control of the page, or a notification of
  the media element. The transport controls, the seek and volume sliders and the mute
  button are rendered only while \<open>currentTrack\<close> is set; previous and next are disabled
  while the list is empty; the volume slider ranges over \<open>[0,1]\<close>. \<open>App_step\<close> is \<open>None\<close>
  for an event the page does not offer in the state.
\<close>

datatype app_event =
    ProbeLoaded upload
  | ClickTrack nat
  | ClickPlayPause
  | ClickPrevious
  | ClickNext
  | Seek real
  | VolumeChange real
  | ClickMute
  | ClickDelete nat
  | TimeUpdate real
  | LoadedMetadata jsnumber
  | Ended

fun App_step :: "app_event \<Rightarrow> app_state \<Rightarrow> app_state option" where
  "App_step (ProbeLoaded u) s =
     (if App_handleFileUpload [u] = [u] \<and> metadata u \<noteq> None
      then Some (App_probeLoaded u s) else None)"
| "App_step (ClickTrack i) s =
     (case nth_opt (tracks s) i of
        None \<Rightarrow> None
      | Some t \<Rightarrow> Some (App_handlePlay (Some t) s))"
| "App_step ClickPlayPause s =
     (if currentTrack s = None then None else Some (App_handlePlay None s))"
| "App_step ClickPrevious s =
     (if currentTrack s = None \<or> tracks s = [] then None else Some (App_handlePrevious s))"
| "App_step ClickNext s =
     (if currentTrack s = None \<or> tracks s = [] then None else Some (App_handleNext s))"
| "App_step (Seek t) s =
     (if currentTrack s = None then None else Some (App_handleSeek t s))"
| "App_step (VolumeChange v) s =
     (if currentTrack s = None \<or> v < 0 \<or> 1 < v then None
      else Some (outcome (App_handleVolumeChange v s)))"
| "App_step ClickMute s =
     (if currentTrack s = None then None else Some (outcome (App_toggleMute s)))"
| "App_step (ClickDelete i) s =
     (case nth_opt (tracks s) i of
        None \<Rightarrow> None
      | Some t \<Rightarrow> Some (App_deleteTrack (track_id t) s))"
| "App_step (TimeUpdate t) s =
     Some (App_handleTimeUpdate
             (s\<lparr>audioRef := map_option (\<lambda>a. a\<lparr>el_currentTime := t\<rparr>) (audioRef s)\<rparr>))"
| "App_step (LoadedMetadata d) s =
     Some (App_handleLoadedMetadata
             (s\<lparr>audioRef := map_option (\<lambda>a. a\<lparr>el_duration := d\<rparr>) (audioRef s)\<rparr>))"
| "App_step Ended s = Some (App_handleEnded s)"

fun App_run :: "app_event list \<Rightarrow> app_state \<Rightarrow> app_state option" where
  "App_run [] s = Some s"
| "App_run (e # es) s = (case App_step e s of None \<Rightarrow> None | Some s' \<Rightarrow> App_run es s')"

section \<open>AudioPlayer\<close>

record ap_state =
  audioFiles :: "track list"
  ap_currentTrack :: "track option"
  ap_isPlaying :: bool
  ap_currentTime :: real
  ap_duration :: jsnumber
  ap_volume :: real
  ap_isMuted :: bool
  currentIndex :: nat
  ap_audioRef :: "audio_el option"

definition AP_init :: "track list \<Rightarrow> ap_state" where
  "AP_init saved =
     \<lparr>audioFiles = saved, ap_currentTrack = None, ap_isPlaying = False, ap_currentTime = 0,
      ap_duration = Num 0, ap_volume = 1, ap_isMuted = False, currentIndex = 0,
      ap_audioRef = Some new_audio\<rparr>"

definition AP_handleFileUpload :: "upload list \<Rightarrow> upload list" where
  "AP_handleFileUpload files = filter (\<lambda>u. startsWith (file_type (upfile u)) ''audio/'') files"

text \<open>The id ends with \<open>Math.random().toString(36).substr(2, 9)\<close>; the name is \<open>file.name\<close>.\<close>

definition AP_newFile :: "upload \<Rightarrow> jsnumber \<Rightarrow> track" where
  "AP_newFile u d =
     \<lparr>track_id = now u @ take 9 (drop 2 (rnd u)),
      name = file_name (upfile u),
      url = objectUrl u,
      track_duration = d\<rparr>"

definition AP_probeLoaded :: "upload \<Rightarrow> ap_state \<Rightarrow> ap_state" where
  "AP_probeLoaded u s =
     (case metadata u of
        None \<Rightarrow> s
      | Some d \<Rightarrow> s\<lparr>audioFiles := audioFiles s @ [AP_newFile u d]\<rparr>)"

definition AP_togglePlayPause :: "ap_state \<Rightarrow> ap_state" where
  "AP_togglePlayPause s =
     (case ap_audioRef s of
        None \<Rightarrow> s
      | Some audio \<Rightarrow>
          (case ap_currentTrack s of
             None \<Rightarrow> s
           | Some c \<Rightarrow>
               if ap_isPlaying s
               then s\<lparr>ap_audioRef := Some (pause_el audio), ap_isPlaying := False\<rparr>
               else s\<lparr>ap_audioRef := Some (play_el audio), ap_isPlaying := True\<rparr>))"

definition AP_playTrack :: "track \<Rightarrow> nat \<Rightarrow> ap_state \<Rightarrow> ap_state" where
  "AP_playTrack t index s =
     (if map_option track_id (ap_currentTrack s) = Some (track_id t)
      then AP_togglePlayPause s
      else s\<lparr>ap_currentTrack := Some t, currentIndex := index, ap_isPlaying := True\<rparr>)"


definition AP_playPrevious :: "ap_state \<Rightarrow> ap_state" where
  "AP_playPrevious s =
     (if length (audioFiles s) = 0 then s
      else (let prevIndex = (if currentIndex s = 0 then length (audioFiles s) - 1
                             else currentIndex s - 1)
            in s\<lparr>ap_currentTrack := nth_opt (audioFiles s) prevIndex,
                  currentIndex := prevIndex, ap_isPlaying := True\<rparr>))"


text \<open>The \<open>onPlay\<close> and \<open>onPause\<close> listeners of the rendered element.\<close>

definition AP_onPlay :: "ap_state \<Rightarrow> ap_state" where
  "AP_onPlay s = s\<lparr>ap_isPlaying := True\<rparr>"

definition AP_onPause :: "ap_state \<Rightarrow> ap_state" where
  "AP_onPause s = s\<lparr>ap_isPlaying := False\<rparr>"




text \<open>
  The slider of AudioPlayer ranges over \<open>0..100\<close>. \<open>setVolume\<close> is called before the
  element is written, so its update stands when the element throws.
\<close>

definition AP_handleVolumeChange :: "real \<Rightarrow> ap_state \<Rightarrow> ap_state result" where
  "AP_handleVolumeChange v s =
     (let newVolume = v / 100;
          s1 = s\<lparr>ap_volume := newVolume\<rparr>
      in case ap_audioRef s of
           None \<Rightarrow> Inr (s1\<lparr>ap_isMuted := (newVolume = 0)\<rparr>)
         | Some audio \<Rightarrow>
             (case set_volume newVolume audio of
                Inl e \<Rightarrow> Inl (e, s1)
              | Inr a \<Rightarrow> Inr (s1\<lparr>ap_audioRef := Some a, ap_isMuted := (newVolume = 0)\<rparr>)))"

definition AP_toggleMute :: "ap_state \<Rightarrow> ap_state result" where
  "AP_toggleMute s =
     (case ap_audioRef s of
        None \<Rightarrow> Inr s
      | Some audio \<Rightarrow>
          if ap_isMuted s
          then (case set_volume (ap_volume s) audio of
                  Inl e \<Rightarrow> Inl (e, s)
                | Inr a \<Rightarrow> Inr (s\<lparr>ap_audioRef := Some a, ap_isMuted := False\<rparr>))
          else (case set_volume 0 audio of
                  Inl e \<Rightarrow> Inl (e, s)
                | Inr a \<Rightarrow> Inr (s\<lparr>ap_audioRef := Some a, ap_isMuted := True\<rparr>)))"

definition AP_deleteTrack :: "string \<Rightarrow> ap_state \<Rightarrow> ap_state" where
  "AP_deleteTrack trackId s =
     (let s1 = s\<lparr>audioFiles := filter (\<lambda>f. track_id f \<noteq> trackId) (audioFiles s)\<rparr>
      in if map_option track_id (ap_currentTrack s) = Some trackId
         then s1\<lparr>ap_currentTrack := None, ap_isPlaying := False\<rparr>
         else s1)"

text \<open>
  The element is rendered with \<open>src={currentTrack?.url}\<close>: after a handler the attribute
  follows \<open>currentTrack\<close>, and a new value starts a load.
\<close>

definition AP_render :: "ap_state \<Rightarrow> ap_state" where
  "AP_render s =
     s\<lparr>ap_audioRef :=
         map_option
           (\<lambda>a. if src a = map_option url (ap_currentTrack s) then a
                else (case ap_currentTrack s of
                        None \<Rightarrow> a\<lparr>src := None\<rparr>
                      | Some c \<Rightarrow> set_src (url c) a))
           (ap_audioRef s)\<rparr>"

section \<open>PlaylistManager\<close>

text \<open>
  A property value as JavaScript holds it at run time. \<open>JSON_value\<close> is what
  \<open>JSON.parse(JSON.stringify(o))\<close> returns for a property of \<open>o\<close>: a property that is
  \<open>undefined\<close> is left out, and \<open>NaN\<close> and the infinities are written as \<open>null\<close>.
\<close>

datatype jsvalue = Undefined | Null | Number jsnumber

fun JSON_value :: "jsvalue \<Rightarrow> jsvalue" where
  "JSON_value Undefined = Undefined"
| "JSON_value Null = Null"
| "JSON_value (Number (Num r)) = Number (Num r)"
| "JSON_value (Number n) = Null"

record pm_track =
  pm_id :: string
  pm_name :: string
  pm_file :: js_file
  pm_url :: string
  pm_duration :: jsvalue
  pm_size :: nat

text \<open>One object of the array stored under the key \<open>mp3-player-tracks\<close>.\<close>

record stored_track =
  st_id :: string
  st_name :: string
  st_url :: string
  st_duration :: jsvalue
  st_size :: nat

text \<open>
  The component state, together with the entry of \<open>localStorage\<close> under the key
  \<open>mp3-player-tracks\<close> (\<open>None\<close> while the key is absent) and the object URLs revoked
  so far.
\<close>

record pm_state =
  pm_tracks :: "pm_track list"
  pm_currentTrack :: "pm_track option"
  pm_isPlaying :: bool
  dragOver :: bool
  localStorage :: "stored_track list option"
  revoked :: "string list"


text \<open>
  \<open>saveTracksToStorage\<close>. \<open>readAsDataURL\<close> is the platform's \<open>FileReader\<close>: the data URL
  of a file, or \<open>None\<close> when the read fails; then \<open>onload\<close> never runs, the promise of
  that track never resolves and nothing is written. \<open>fits\<close> tells whether
  \<open>localStorage.setItem\<close> accepts the value; when it throws, the error is caught and
  the store keeps what it held.
\<close>

definition trackData :: "(js_file \<Rightarrow> string option) \<Rightarrow> pm_track \<Rightarrow> stored_track option" where
  "trackData readAsDataURL t =
     map_option
       (\<lambda>result. \<lparr>st_id = pm_id t, st_name = pm_name t, st_url = result,
                   st_duration = JSON_value (pm_duration t), st_size = pm_size t\<rparr>)
       (readAsDataURL (pm_file t))"

definition saveTracksToStorage ::
  "(js_file \<Rightarrow> string option) \<Rightarrow> (stored_track list \<Rightarrow> bool) \<Rightarrow> pm_track list \<Rightarrow> pm_state \<Rightarrow> pm_state"
where
  "saveTracksToStorage readAsDataURL fits tracksToSave s =
     (case those (map (trackData readAsDataURL) tracksToSave) of
        None \<Rightarrow> s
      | Some td \<Rightarrow> if fits td then s\<lparr>localStorage := Some td\<rparr> else s)"



definition PM_newTrack :: "upload \<Rightarrow> pm_track" where
  "PM_newTrack u =
     \<lparr>pm_id = now u @ ''-'' @ take 9 (drop 2 (rnd u)),
      pm_name = stripExtension (file_name (upfile u)),
      pm_file = upfile u,
      pm_url = objectUrl u,
      pm_duration = Undefined,
      pm_size = file_size (upfile u)\<rparr>"

definition PM_handleFileUpload ::
  "(js_file \<Rightarrow> string option) \<Rightarrow> (stored_track list \<Rightarrow> bool) \<Rightarrow> upload list \<Rightarrow> pm_state \<Rightarrow> pm_state"
where
  "PM_handleFileUpload readAsDataURL fits files s =
     (let newTracks =
            map PM_newTrack (filter (\<lambda>u. startsWith (file_type (upfile u)) ''audio/'') files)
      in if length newTracks > 0
         then (let updatedTracks = pm_tracks s @ newTracks
               in saveTracksToStorage readAsDataURL fits updatedTracks
                    (s\<lparr>pm_tracks := updatedTracks\<rparr>))
         else s)"


text \<open>
  \<open>deleteTrack\<close>: the filter callback revokes the URL of each track it drops and clears
  the player when the dropped track is the current one.
\<close>

definition PM_deleteTrack ::
  "(js_file \<Rightarrow> string option) \<Rightarrow> (stored_track list \<Rightarrow> bool) \<Rightarrow> string \<Rightarrow> pm_state \<Rightarrow> pm_state"
where
  "PM_deleteTrack readAsDataURL fits trackId s =
     (let dropped = filter (\<lambda>t. pm_id t = trackId) (pm_tracks s);
          updatedTracks = filter (\<lambda>t. pm_id t \<noteq> trackId) (pm_tracks s);
          s1 = s\<lparr>revoked := revoked s @ map pm_url dropped\<rparr>;
          s2 = (if dropped \<noteq> [] \<and> map_option pm_id (pm_currentTrack s) = Some trackId
                then s1\<lparr>pm_currentTrack := None, pm_isPlaying := False\<rparr>
                else s1)
      in saveTracksToStorage readAsDataURL fits updatedTracks (s2\<lparr>pm_tracks := updatedTracks\<rparr>))"


section \<open>Properties\<close>

subsection \<open>Definitions used in the statements\<close>


text \<open>Two uploads, of durations 10 and 20, and the tracks App makes of them.\<close>

definition upload_A :: upload where
  "upload_A =
     \<lparr>upfile = \<lparr>file_name = ''a.mp3'', file_type = ''audio/mpeg'', file_bytes = ''A''\<rparr>,
      objectUrl = ''blob:a'', now = ''1700000000001'', rnd = ''0.k3j5h1x9q2a'',
      metadata = Some (Num 10)\<rparr>"

definition upload_B :: upload where
  "upload_B =
     \<lparr>upfile = \<lparr>file_name = ''b.mp3'', file_type = ''audio/mpeg'', file_bytes = ''B''\<rparr>,
      objectUrl = ''blob:b'', now = ''1700000000002'', rnd = ''0.z8w4m2c7v5b'',
      metadata = Some (Num 20)\<rparr>"

definition track_A :: track where
  "track_A = App_newTrack upload_A (Num 10)"

definition track_B :: track where
  "track_B = App_newTrack upload_B (Num 20)"


text \<open>App and AudioPlayer while track A plays at second 5, and with A and B listed.\<close>

definition App_playing_A :: app_state where
  "App_playing_A =
     \<lparr>tracks = [track_A, track_B], currentTrack = Some track_A, isPlaying = True,
      currentTime = 5, duration = Num 10, volume = 1, isMuted = False,
      audioRef = Some \<lparr>src = Some ''blob:a'', paused = False, el_currentTime = 5,
                        el_duration = Num 10, el_volume = 1, loads = 2\<rparr>\<rparr>"

definition file_A :: track where
  "file_A = AP_newFile upload_A (Num 10)"

definition file_B :: track where
  "file_B = AP_newFile upload_B (Num 20)"


definition AP_playing_A :: ap_state where
  "AP_playing_A =
     \<lparr>audioFiles = [file_A, file_B], ap_currentTrack = Some file_A, ap_isPlaying = True,
      ap_currentTime = 5, ap_duration = Num 10, ap_volume = 1, ap_isMuted = False,
      currentIndex = 0,
      ap_audioRef = Some \<lparr>src = Some ''blob:a'', paused = False, el_currentTime = 5,
                           el_duration = Num 10, el_volume = 1, loads = 1\<rparr>\<rparr>"

text \<open>
  A platform for PlaylistManager in which every read, every write and every fetch
  succeeds, and two tracks as \<open>handleFileUpload\<close> makes them; \<open>nan_track\<close> is the first
  one with the duration \<open>NaN\<close>.
\<close>

definition demo_readAsDataURL :: "js_file \<Rightarrow> string option" where
  "demo_readAsDataURL f = Some (''data:'' @ file_type f @ '';base64,'' @ file_bytes f)"

definition demo_fits :: "stored_track list \<Rightarrow> bool" where
  "demo_fits td = True"



definition pm_track_A :: pm_track where
  "pm_track_A = PM_newTrack upload_A"

definition pm_track_B :: pm_track where
  "pm_track_B = PM_newTrack upload_B"



text \<open>PlaylistManager with A and B listed while B, the last track, plays.\<close>

definition PM_playing_B :: pm_state where
  "PM_playing_B =
     \<lparr>pm_tracks = [pm_track_A, pm_track_B], pm_currentTrack = Some pm_track_B,
      pm_isPlaying = True, dragOver = False, localStorage = None, revoked = []\<rparr>"

definition PM_playing_A :: pm_state where
  "PM_playing_A = PM_playing_B\<lparr>pm_currentTrack := Some pm_track_A\<rparr>"


text \<open>App after the volume slider was moved to 0 while A plays.\<close>

definition App_muted_at_zero :: app_state where
  "App_muted_at_zero = outcome (App_handleVolumeChange 0 App_playing_A)"



text \<open>Both players after the volume slider was moved to three tenths while A plays.\<close>

definition App_quiet :: app_state where
  "App_quiet = outcome (App_handleVolumeChange (3 / 10) App_playing_A)"

definition AP_quiet :: ap_state where
  "AP_quiet = outcome (AP_handleVolumeChange 30 AP_playing_A)"

text \<open>
  A file that is not audio, and a file that declares an audio type but cannot be decoded,
  so that its probe never fires \<open>loadedmetadata\<close>.
\<close>

definition upload_txt :: upload where
  "upload_txt =
     \<lparr>upfile = \<lparr>file_name = ''notes.txt'', file_type = ''text/plain'', file_bytes = ''T''\<rparr>,
      objectUrl = ''blob:t'', now = ''1700000000003'', rnd = ''0.p6r1s8u3y7d'',
      metadata = None\<rparr>"

definition upload_broken :: upload where
  "upload_broken =
     \<lparr>upfile = \<lparr>file_name = ''broken.mp3'', file_type = ''audio/mpeg'', file_bytes = ''?''\<rparr>,
      objectUrl = ''blob:x'', now = ''1700000000004'', rnd = ''0.f2g9h4j6k1l'',
      metadata = None\<rparr>"

text \<open>
  The files of a selection that end up in the list: those with an audio type whose probe
  fires \<open>loadedmetadata\<close>.
\<close>

definition ingested :: "upload list \<Rightarrow> upload list" where
  "ingested files =
     filter (\<lambda>u. startsWith (file_type (upfile u)) ''audio/'' \<and> metadata u \<noteq> None) files"

subsection \<open>The idle invariant of App\<close>












text \<open>The states used as examples are states the components reach.\<close>

lemma App_playing_A_reached:
  "App_run [ProbeLoaded upload_A, ProbeLoaded upload_B, ClickTrack 0, LoadedMetadata (Num 10),
            TimeUpdate 5] (App_init [])
   = Some App_playing_A"
  by (simp add: App_playing_A_def App_init_def upload_A_def upload_B_def App_handleFileUpload_def
      startsWith_def App_probeLoaded_def App_newTrack_def track_A_def track_B_def nth_opt_def
      App_handlePlay_def new_audio_def load_el_def set_src_def play_el_def
      App_handleTimeUpdate_def App_handleLoadedMetadata_def Let_def)





subsection \<open>Persistence of PlaylistManager\<close>







subsection \<open>Looking up the current track\<close>



subsection \<open>The end of a track\<close>



lemma demo_ids:
  "pm_id pm_track_A = ''1700000000001-k3j5h1x9q''" "pm_id pm_track_B = ''1700000000002-z8w4m2c7v''"
  "track_id track_A = ''17000000000010.k3j5h1x9q2a''" "track_id track_B = ''17000000000020.z8w4m2c7v5b''"
  "track_id file_A = ''1700000000001k3j5h1x9q''" "track_id file_B = ''1700000000002z8w4m2c7v''"
  by (simp_all add: pm_track_A_def pm_track_B_def PM_newTrack_def track_A_def track_B_def
      App_newTrack_def file_A_def file_B_def AP_newFile_def upload_A_def upload_B_def)



subsection \<open>Selecting the current track\<close>

lemma same_id_same_track:
  "distinct (map f xs) \<Longrightarrow> x \<in> set xs \<Longrightarrow> y \<in> set xs \<Longrightarrow> f x = f y \<Longrightarrow> x = y"
  by (meson distinct_map inj_on_def)

text \<open>
  C4. While a track plays, selecting it again (\<open>playTrack\<close> of AudioPlayer with the
  current id, \<open>handlePlay\<close> of App with the listed track that has the current id) does
  what the play/pause control does: the element is paused and \<open>isPlaying\<close> becomes
  false. Nothing else changes: the current track, \<open>currentTime\<close>, and the element's
  source, position and number of loads stay, also after AudioPlayer renders.
\<close>

theorem select_current_pauses:
  "(ap_audioRef s = Some a \<and> ap_currentTrack s = Some c \<and> track_id t = track_id c \<and>
    ap_isPlaying s \<longrightarrow>
      AP_playTrack t i s = AP_togglePlayPause s \<and>
      AP_playTrack t i s = s\<lparr>ap_audioRef := Some (a\<lparr>paused := True\<rparr>), ap_isPlaying := False\<rparr> \<and>
      ap_currentTime (AP_playTrack t i s) = ap_currentTime s \<and>
      (src a = Some (url c) \<longrightarrow> AP_render (AP_playTrack t i s) = AP_playTrack t i s)) \<and>
   (audioRef s' = Some a' \<and> currentTrack s' = Some c' \<and> isPlaying s' \<and>
    distinct (map track_id (tracks s')) \<and> c' \<in> set (tracks s') \<and> t' \<in> set (tracks s') \<and>
    track_id t' = track_id c' \<longrightarrow>
      App_handlePlay (Some t') s' = App_handlePlay None s' \<and>
      App_handlePlay (Some t') s' = s'\<lparr>audioRef := Some (a'\<lparr>paused := True\<rparr>), isPlaying := False\<rparr> \<and>
      currentTime (App_handlePlay (Some t') s') = currentTime s')"
proof (intro conjI impI)
  assume h: "ap_audioRef s = Some a \<and> ap_currentTrack s = Some c \<and> track_id t = track_id c \<and>
    ap_isPlaying s"
  then show "AP_playTrack t i s = AP_togglePlayPause s"
    by (simp add: AP_playTrack_def)
  from h show eq: "AP_playTrack t i s = s\<lparr>ap_audioRef := Some (a\<lparr>paused := True\<rparr>), ap_isPlaying := False\<rparr>"
    by (simp add: AP_playTrack_def AP_togglePlayPause_def pause_el_def)
  from eq show "ap_currentTime (AP_playTrack t i s) = ap_currentTime s" by simp
  assume "src a = Some (url c)"
  with h eq show "AP_render (AP_playTrack t i s) = AP_playTrack t i s"
    by (simp add: AP_render_def)
next
  assume h: "audioRef s' = Some a' \<and> currentTrack s' = Some c' \<and> isPlaying s' \<and>
    distinct (map track_id (tracks s')) \<and> c' \<in> set (tracks s') \<and> t' \<in> set (tracks s') \<and>
    track_id t' = track_id c'"
  then have same: "t' = c'"
    using same_id_same_track [of track_id "tracks s'" t' c'] by simp
  with h show "App_handlePlay (Some t') s' = App_handlePlay None s'"
    by (simp add: App_handlePlay_def)
  from h same show eq: "App_handlePlay (Some t') s' = s'\<lparr>audioRef := Some (a'\<lparr>paused := True\<rparr>), isPlaying := False\<rparr>"
    by (simp add: App_handlePlay_def pause_el_def)
  from eq show "currentTime (App_handlePlay (Some t') s') = currentTime s'" by simp
qed

theorem select_current_pauses_witness:
  "AP_playTrack file_A 0 AP_playing_A = AP_togglePlayPause AP_playing_A \<and>
   \<not> ap_isPlaying (AP_playTrack file_A 0 AP_playing_A) \<and>
   ap_currentTime (AP_playTrack file_A 0 AP_playing_A) = 5 \<and>
   map_option loads (ap_audioRef (AP_render (AP_playTrack file_A 0 AP_playing_A))) = Some 1 \<and>
   map_option paused (ap_audioRef (AP_playTrack file_A 0 AP_playing_A)) = Some True \<and>
   App_handlePlay (Some track_A) App_playing_A = App_handlePlay None App_playing_A \<and>
   \<not> isPlaying (App_handlePlay (Some track_A) App_playing_A) \<and>
   currentTime (App_handlePlay (Some track_A) App_playing_A) = 5 \<and>
   map_option loads (audioRef (App_handlePlay (Some track_A) App_playing_A)) = Some 2 \<and>
   map_option paused (audioRef (App_handlePlay (Some track_A) App_playing_A)) = Some True"
proof -
  let ?a = "\<lparr>src = Some ''blob:a'', paused = False, el_currentTime = 5,
             el_duration = Num 10, el_volume = 1, loads = 1\<rparr>"
  let ?a' = "\<lparr>src = Some ''blob:a'', paused = False, el_currentTime = 5,
             el_duration = Num 10, el_volume = 1, loads = 2\<rparr>"
  have ap: "ap_audioRef AP_playing_A = Some ?a \<and> ap_currentTrack AP_playing_A = Some file_A \<and>
            track_id file_A = track_id file_A \<and> ap_isPlaying AP_playing_A"
    by (simp add: AP_playing_A_def)
  have rendered: "src ?a = Some (url file_A)"
    by (simp add: file_A_def AP_newFile_def upload_A_def)
  have app: "audioRef App_playing_A = Some ?a' \<and> currentTrack App_playing_A = Some track_A \<and>
             isPlaying App_playing_A \<and> distinct (map track_id (tracks App_playing_A)) \<and>
             track_A \<in> set (tracks App_playing_A) \<and> track_A \<in> set (tracks App_playing_A) \<and>
             track_id track_A = track_id track_A"
    by (simp add: App_playing_A_def demo_ids)
  note T = select_current_pauses
             [of AP_playing_A ?a file_A file_A 0 App_playing_A ?a' track_A track_A]
  from T ap rendered have
    1: "AP_playTrack file_A 0 AP_playing_A = AP_togglePlayPause AP_playing_A"
    and 2: "AP_playTrack file_A 0 AP_playing_A
            = AP_playing_A\<lparr>ap_audioRef := Some (?a\<lparr>paused := True\<rparr>), ap_isPlaying := False\<rparr>"
    and 3: "AP_render (AP_playTrack file_A 0 AP_playing_A) = AP_playTrack file_A 0 AP_playing_A"
    by blast+
  from T app have
    4: "App_handlePlay (Some track_A) App_playing_A = App_handlePlay None App_playing_A"
    and 5: "App_handlePlay (Some track_A) App_playing_A
            = App_playing_A\<lparr>audioRef := Some (?a'\<lparr>paused := True\<rparr>), isPlaying := False\<rparr>"
    by blast+
  have t: "ap_currentTime AP_playing_A = 5" "currentTime App_playing_A = 5"
    by (simp_all add: AP_playing_A_def App_playing_A_def)
  have "\<not> ap_isPlaying (AP_playTrack file_A 0 AP_playing_A)"
    and "ap_currentTime (AP_playTrack file_A 0 AP_playing_A) = 5"
    and "map_option paused (ap_audioRef (AP_playTrack file_A 0 AP_playing_A)) = Some True"
    by (simp_all add: 2 t)
  moreover have "map_option loads (ap_audioRef (AP_render (AP_playTrack file_A 0 AP_playing_A))) = Some 1"
    by (simp only: 3) (simp add: 2)
  moreover have "\<not> isPlaying (App_handlePlay (Some track_A) App_playing_A)"
    and "currentTime (App_handlePlay (Some track_A) App_playing_A) = 5"
    and "map_option loads (audioRef (App_handlePlay (Some track_A) App_playing_A)) = Some 2"
    and "map_option paused (audioRef (App_handlePlay (Some track_A) App_playing_A)) = Some True"
    by (simp_all add: 5 t)
  ultimately show ?thesis
    using 1 4 by (intro conjI)
qed

subsection \<open>Volume and mute\<close>

text \<open>
  C5 (amended). The volume handlers store what the slider gives, without clamping. For a
  value in the slider's range (\<open>[0,1]\<close> in App, \<open>0..100\<close> divided by 100 in
  AudioPlayer) the value is stored and written to the element, and \<open>isMuted\<close> becomes
  true exactly when it is 0.
\<close>

theorem volume_stored_in_range:
  "(audioRef s = Some a \<and> 0 \<le> v \<and> v \<le> 1 \<longrightarrow>
      App_handleVolumeChange v s =
        Inr (s\<lparr>audioRef := Some (a\<lparr>el_volume := v\<rparr>), volume := v, isMuted := (v = 0)\<rparr>)) \<and>
   (ap_audioRef s' = Some a' \<and> 0 \<le> x \<and> x \<le> 100 \<longrightarrow>
      AP_handleVolumeChange x s' =
        Inr (s'\<lparr>ap_volume := x / 100, ap_audioRef := Some (a'\<lparr>el_volume := x / 100\<rparr>),
                ap_isMuted := (x = 0)\<rparr>))"
  by (simp add: App_handleVolumeChange_def AP_handleVolumeChange_def set_volume_def Let_def)

theorem volume_stored_in_range_witness:
  "volume (outcome (App_handleVolumeChange (3 / 10) App_playing_A)) = 3 / 10 \<and>
   \<not> isMuted (outcome (App_handleVolumeChange (3 / 10) App_playing_A)) \<and>
   isMuted (outcome (App_handleVolumeChange 0 App_playing_A)) \<and>
   ap_volume (outcome (AP_handleVolumeChange 30 AP_playing_A)) = 3 / 10 \<and>
   map_option el_volume (ap_audioRef (outcome (AP_handleVolumeChange 30 AP_playing_A))) = Some (3 / 10) \<and>
   ap_isMuted (outcome (AP_handleVolumeChange 0 AP_playing_A))"
proof -
  let ?a = "\<lparr>src = Some ''blob:a'', paused = False, el_currentTime = 5,
             el_duration = Num 10, el_volume = 1, loads = 2\<rparr>"
  let ?a' = "\<lparr>src = Some ''blob:a'', paused = False, el_currentTime = 5,
             el_duration = Num 10, el_volume = 1, loads = 1\<rparr>"
  have r: "audioRef App_playing_A = Some ?a" "ap_audioRef AP_playing_A = Some ?a'"
    by (simp_all add: App_playing_A_def AP_playing_A_def)
  from volume_stored_in_range [of App_playing_A ?a "3 / 10" AP_playing_A ?a' 30] r
  have 1: "App_handleVolumeChange (3 / 10) App_playing_A =
             Inr (App_playing_A\<lparr>audioRef := Some (?a\<lparr>el_volume := 3 / 10\<rparr>), volume := 3 / 10,
                                isMuted := False\<rparr>)"
    and 2: "AP_handleVolumeChange 30 AP_playing_A =
             Inr (AP_playing_A\<lparr>ap_volume := 3 / 10, ap_audioRef := Some (?a'\<lparr>el_volume := 3 / 10\<rparr>),
                               ap_isMuted := False\<rparr>)"
    by simp_all
  from volume_stored_in_range [of App_playing_A ?a 0 AP_playing_A ?a' 0] r
  have 3: "App_handleVolumeChange 0 App_playing_A =
             Inr (App_playing_A\<lparr>audioRef := Some (?a\<lparr>el_volume := 0\<rparr>), volume := 0,
                                isMuted := True\<rparr>)"
    and 4: "AP_handleVolumeChange 0 AP_playing_A =
             Inr (AP_playing_A\<lparr>ap_volume := 0, ap_audioRef := Some (?a'\<lparr>el_volume := 0\<rparr>),
                               ap_isMuted := True\<rparr>)"
    by simp_all
  show ?thesis
    by (simp add: 1 2 3 4 outcome_def)
qed

text \<open>
  C5 as stated fails: nothing clamps. In App the element rejects \<open>-5\<close> before anything is
  stored and the volume stays 1; AudioPlayer stores \<open>-5\<close> and \<open>5\<close> as they come.
\<close>

theorem volume_not_clamped:
  "App_handleVolumeChange (-5) App_playing_A = Inl (IndexSizeError, App_playing_A) \<and>
   volume (outcome (App_handleVolumeChange (-5) App_playing_A)) = 1 \<and>
   ap_volume (outcome (AP_handleVolumeChange (-500) AP_playing_A)) = -5 \<and>
   ap_volume (outcome (AP_handleVolumeChange 500 AP_playing_A)) = 5"
  by (simp add: App_handleVolumeChange_def AP_handleVolumeChange_def set_volume_def Let_def
      outcome_def App_playing_A_def AP_playing_A_def)

text \<open>
  C7 (amended). For a stored volume \<open>v\<close> in \<open>[0,1]\<close>, \<open>toggleMute\<close> while unmuted sets the
  element's volume to 0 and \<open>toggleMute\<close> while muted sets it back to \<open>v\<close>, except that
  App sets it to 0.5 when \<open>v = 0\<close>; the stored volume is never changed.
\<close>

theorem toggleMute_keeps_volume:
  "(ap_audioRef s = Some a \<and> 0 \<le> ap_volume s \<and> ap_volume s \<le> 1 \<longrightarrow>
      AP_toggleMute s =
        Inr (s\<lparr>ap_audioRef := Some (a\<lparr>el_volume := (if ap_isMuted s then ap_volume s else 0)\<rparr>),
               ap_isMuted := \<not> ap_isMuted s\<rparr>)) \<and>
   (audioRef s' = Some a' \<and> 0 \<le> volume s' \<and> volume s' \<le> 1 \<longrightarrow>
      App_toggleMute s' =
        Inr (s'\<lparr>audioRef :=
                  Some (a'\<lparr>el_volume := (if isMuted s'
                                           then (if volume s' = 0 then 1 / 2 else volume s')
                                           else 0)\<rparr>),
                isMuted := \<not> isMuted s'\<rparr>))"
  by (simp add: AP_toggleMute_def App_toggleMute_def set_volume_def)

lemma quiet_states:
  "AP_quiet = AP_playing_A\<lparr>ap_volume := 3 / 10,
                ap_audioRef := Some \<lparr>src = Some ''blob:a'', paused = False, el_currentTime = 5,
                                      el_duration = Num 10, el_volume = 3 / 10, loads = 1\<rparr>\<rparr>"
  "App_quiet = App_playing_A\<lparr>volume := 3 / 10,
                audioRef := Some \<lparr>src = Some ''blob:a'', paused = False, el_currentTime = 5,
                                   el_duration = Num 10, el_volume = 3 / 10, loads = 2\<rparr>\<rparr>"
  by (simp_all add: AP_quiet_def App_quiet_def AP_handleVolumeChange_def
      App_handleVolumeChange_def set_volume_def outcome_def Let_def AP_playing_A_def
      App_playing_A_def)

theorem toggleMute_keeps_volume_witness:
  "ap_volume (outcome (AP_toggleMute AP_quiet)) = 3 / 10 \<and>
   map_option el_volume (ap_audioRef (outcome (AP_toggleMute AP_quiet))) = Some 0 \<and>
   ap_isMuted (outcome (AP_toggleMute AP_quiet)) \<and>
   map_option el_volume (ap_audioRef (outcome (AP_toggleMute (outcome (AP_toggleMute AP_quiet)))))
     = Some (3 / 10) \<and>
   volume (outcome (App_toggleMute App_quiet)) = 3 / 10 \<and>
   map_option el_volume (audioRef (outcome (App_toggleMute App_quiet))) = Some 0 \<and>
   isMuted (outcome (App_toggleMute App_quiet)) \<and>
   map_option el_volume (audioRef (outcome (App_toggleMute (outcome (App_toggleMute App_quiet)))))
     = Some (3 / 10)"
proof -
  let ?a = "\<lparr>src = Some ''blob:a'', paused = False, el_currentTime = 5,
             el_duration = Num 10, el_volume = 3 / 10, loads = 1\<rparr>"
  let ?b = "\<lparr>src = Some ''blob:a'', paused = False, el_currentTime = 5,
             el_duration = Num 10, el_volume = 3 / 10, loads = 2\<rparr>"
  let ?za = "\<lparr>src = Some ''blob:a'', paused = False, el_currentTime = 5,
              el_duration = Num 10, el_volume = 0, loads = 1\<rparr>"
  let ?zb = "\<lparr>src = Some ''blob:a'', paused = False, el_currentTime = 5,
              el_duration = Num 10, el_volume = 0, loads = 2\<rparr>"
  let ?s = "AP_quiet\<lparr>ap_audioRef := Some ?za, ap_isMuted := True\<rparr>"
  let ?t = "App_quiet\<lparr>audioRef := Some ?zb, isMuted := True\<rparr>"
  have q: "ap_audioRef AP_quiet = Some ?a" "ap_volume AP_quiet = 3 / 10" "\<not> ap_isMuted AP_quiet"
    "audioRef App_quiet = Some ?b" "volume App_quiet = 3 / 10" "\<not> isMuted App_quiet"
    by (simp_all add: quiet_states AP_playing_A_def App_playing_A_def)
  from toggleMute_keeps_volume [of AP_quiet ?a App_quiet ?b] q
  have 1: "AP_toggleMute AP_quiet = Inr ?s" and 2: "App_toggleMute App_quiet = Inr ?t"
    by simp_all
  from toggleMute_keeps_volume [of ?s ?za ?t ?zb] q
  have 3: "AP_toggleMute ?s = Inr (?s\<lparr>ap_audioRef := Some ?a, ap_isMuted := False\<rparr>)"
    and 4: "App_toggleMute ?t = Inr (?t\<lparr>audioRef := Some ?b, isMuted := False\<rparr>)"
    by simp_all
  show ?thesis
    by (simp add: 1 2 outcome_def 3 [simplified] 4 [simplified] q)
qed

text \<open>
  C7 as stated fails in App for the stored volume 0: unmuting sets the element to 0.5.
\<close>

theorem mute_from_zero_gives_half:
  "volume App_muted_at_zero = 0 \<and> isMuted App_muted_at_zero \<and>
   map_option el_volume (audioRef (outcome (App_toggleMute App_muted_at_zero))) = Some (1 / 2) \<and>
   volume (outcome (App_toggleMute App_muted_at_zero)) = 0"
  by (simp add: App_muted_at_zero_def App_handleVolumeChange_def App_toggleMute_def
      set_volume_def outcome_def App_playing_A_def)

subsection \<open>Next\<close>










subsection \<open>Uploads\<close>

lemma stripExtension_examples:
  "stripExtension ''song.mp3'' = ''song''"
  "stripExtension ''my.song.ogg'' = ''my.song''"
  "stripExtension ''noext'' = ''noext''"
  "stripExtension ''trailing.'' = ''trailing.''"
  "stripExtension ''.mp3'' = ''''"
  by (simp_all add: stripExtension_def)

text \<open>
  C8. App and PlaylistManager name a track by the file name without its extension;
  AudioPlayer takes \<open>file.name\<close> as it is: the accepted file \<open>a.mp3\<close> is listed by
  AudioPlayer as \<open>a.mp3\<close> and by the other two as \<open>a\<close>.
\<close>

theorem AudioPlayer_keeps_extension:
  "AP_handleFileUpload [upload_A] = [upload_A] \<and>
   audioFiles (AP_probeLoaded upload_A (AP_init [])) = [file_A] \<and>
   name file_A = ''a.mp3'' \<and>
   tracks (App_probeLoaded upload_A (App_init [])) = [track_A] \<and>
   name track_A = ''a'' \<and>
   pm_name (PM_newTrack upload_A) = ''a''"
  by (simp add: AP_handleFileUpload_def startsWith_def upload_A_def AP_probeLoaded_def
      AP_init_def file_A_def AP_newFile_def App_probeLoaded_def App_init_def track_A_def
      App_newTrack_def PM_newTrack_def stripExtension_def)

lemma fold_App_probeLoaded:
  "tracks (fold App_probeLoaded ds s)
   = tracks s @ List.map_filter (\<lambda>u. map_option (App_newTrack u) (metadata u)) ds"
  by (induction ds arbitrary: s)
     (auto simp: App_probeLoaded_def List.map_filter_simps split: option.splits)

lemma fold_AP_probeLoaded:
  "audioFiles (fold AP_probeLoaded ds s)
   = audioFiles s @ List.map_filter (\<lambda>u. map_option (AP_newFile u) (metadata u)) ds"
  by (induction ds arbitrary: s)
     (auto simp: AP_probeLoaded_def List.map_filter_simps split: option.splits)

lemma length_map_filter_metadata:
  "length (List.map_filter (\<lambda>u. map_option (f u) (metadata u)) ds)
   = length (filter (\<lambda>u. metadata u \<noteq> None) ds)"
  by (induction ds) (auto simp: List.map_filter_simps split: option.splits)

lemma length_filter_delivery:
  assumes "mset ds = mset (filter Q files)"
  shows "length (filter P ds) = length (filter (\<lambda>u. Q u \<and> P u) files)"
proof -
  have "length (filter P ds) = size (filter_mset P (mset ds))"
    by (simp flip: mset_filter)
  also have "\<dots> = size (filter_mset P (mset (filter Q files)))"
    by (simp add: assms)
  also have "\<dots> = length (filter P (filter Q files))"
    by (simp flip: mset_filter)
  finally show ?thesis by simp
qed

text \<open>
  C9 (amended). Of a selection, the files whose type does not start with \<open>audio/\<close> start
  no probe and are passed over in silence. Whatever the order \<open>ds\<close> in which the probes of
  the other files are answered, the list keeps its old entries and gains exactly one entry
  for each file with an audio type whose probe fires \<open>loadedmetadata\<close>.
\<close>

theorem upload_partial_success:
  "(mset ds = mset (App_handleFileUpload files) \<longrightarrow>
      take (length (tracks s)) (tracks (fold App_probeLoaded ds s)) = tracks s \<and>
      length (tracks (fold App_probeLoaded ds s)) = length (tracks s) + length (ingested files)) \<and>
   (mset ds' = mset (AP_handleFileUpload files') \<longrightarrow>
      take (length (audioFiles a)) (audioFiles (fold AP_probeLoaded ds' a)) = audioFiles a \<and>
      length (audioFiles (fold AP_probeLoaded ds' a))
        = length (audioFiles a) + length (ingested files'))"
proof (intro conjI impI)
  show "take (length (tracks s)) (tracks (fold App_probeLoaded ds s)) = tracks s"
    by (simp add: fold_App_probeLoaded)
  show "take (length (audioFiles a)) (audioFiles (fold AP_probeLoaded ds' a)) = audioFiles a"
    by (simp add: fold_AP_probeLoaded)
next
  assume "mset ds = mset (App_handleFileUpload files)"
  then have "length (filter (\<lambda>u. metadata u \<noteq> None) ds) = length (ingested files)"
    unfolding App_handleFileUpload_def ingested_def by (rule length_filter_delivery)
  then show "length (tracks (fold App_probeLoaded ds s)) = length (tracks s) + length (ingested files)"
    by (simp add: fold_App_probeLoaded length_map_filter_metadata)
next
  assume "mset ds' = mset (AP_handleFileUpload files')"
  then have "length (filter (\<lambda>u. metadata u \<noteq> None) ds') = length (ingested files')"
    unfolding AP_handleFileUpload_def ingested_def by (rule length_filter_delivery)
  then show "length (audioFiles (fold AP_probeLoaded ds' a))
        = length (audioFiles a) + length (ingested files')"
    by (simp add: fold_AP_probeLoaded length_map_filter_metadata)
qed

lemma batch_of_three:
  "App_handleFileUpload [upload_A, upload_txt, upload_B] = [upload_A, upload_B]"
  "AP_handleFileUpload [upload_A, upload_txt, upload_B] = [upload_A, upload_B]"
  "ingested [upload_A, upload_txt, upload_B] = [upload_A, upload_B]"
  by (simp_all add: App_handleFileUpload_def AP_handleFileUpload_def ingested_def startsWith_def
      upload_A_def upload_B_def upload_txt_def)

theorem upload_partial_success_witness:
  "App_handleFileUpload [upload_A, upload_txt, upload_B] = [upload_A, upload_B] \<and>
   length (tracks (fold App_probeLoaded [upload_B, upload_A] (App_init []))) = 2 \<and>
   tracks (fold App_probeLoaded [upload_B, upload_A] (App_init [])) = [track_B, track_A] \<and>
   AP_handleFileUpload [upload_A, upload_txt, upload_B] = [upload_A, upload_B] \<and>
   length (audioFiles (fold AP_probeLoaded [upload_A, upload_B] (AP_init []))) = 2 \<and>
   audioFiles (fold AP_probeLoaded [upload_A, upload_B] (AP_init [])) = [file_A, file_B]"
proof -
  have d: "mset [upload_B, upload_A] = mset (App_handleFileUpload [upload_A, upload_txt, upload_B])"
    "mset [upload_A, upload_B] = mset (AP_handleFileUpload [upload_A, upload_txt, upload_B])"
    by (simp_all add: batch_of_three)
  from upload_partial_success
         [of "[upload_B, upload_A]" "[upload_A, upload_txt, upload_B]" "App_init []"
             "[upload_A, upload_B]" "[upload_A, upload_txt, upload_B]" "AP_init []"] d
  have "length (tracks (fold App_probeLoaded [upload_B, upload_A] (App_init []))) = 2"
    and "length (audioFiles (fold AP_probeLoaded [upload_A, upload_B] (AP_init []))) = 2"
    by (simp_all add: batch_of_three App_init_def AP_init_def)
  moreover have "tracks (fold App_probeLoaded [upload_B, upload_A] (App_init [])) = [track_B, track_A]"
    by (simp add: App_probeLoaded_def App_init_def track_A_def track_B_def upload_A_def upload_B_def)
  moreover have "audioFiles (fold AP_probeLoaded [upload_A, upload_B] (AP_init [])) = [file_A, file_B]"
    by (simp add: AP_probeLoaded_def AP_init_def file_A_def file_B_def upload_A_def upload_B_def)
  ultimately show ?thesis
    using batch_of_three by (intro conjI)
qed

text \<open>
  C9 as stated fails for a file that passes the type check but cannot be decoded: its
  probe never fires \<open>loadedmetadata\<close> and no entry is added.
\<close>

theorem undecodable_audio_not_added:
  "App_handleFileUpload [upload_broken] = [upload_broken] \<and>
   tracks (fold App_probeLoaded [upload_broken] (App_init [])) = [] \<and>
   AP_handleFileUpload [upload_broken] = [upload_broken] \<and>
   audioFiles (fold AP_probeLoaded [upload_broken] (AP_init [])) = []"
  by (simp add: App_handleFileUpload_def AP_handleFileUpload_def startsWith_def upload_broken_def
      App_probeLoaded_def AP_probeLoaded_def App_init_def AP_init_def)

subsection \<open>Deleting another track\<close>

lemma filter_is_remove1:
  "distinct (map f xs) \<Longrightarrow> x \<in> set xs \<Longrightarrow> filter (\<lambda>y. f y \<noteq> f x) xs = remove1 x xs"
proof (induction xs)
  case Nil
  then show ?case by simp
next
  case (Cons y ys)
  show ?case
  proof (cases "y = x")
    case True
    with Cons.prems have "f x \<notin> f ` set ys" by simp
    then have "\<forall>z\<in>set ys. f z \<noteq> f x" by (metis imageI)
    then have "filter (\<lambda>z. f z \<noteq> f x) ys = ys" by (simp add: filter_id_conv)
    with True show ?thesis by simp
  next
    case False
    with Cons.prems have "x \<in> set ys" "f y \<noteq> f x" by auto
    with Cons False show ?thesis by simp
  qed
qed

lemma length_remove1_mem: "x \<in> set xs \<Longrightarrow> Suc (length (remove1 x xs)) = length xs"
  using length_pos_if_in_set [of x xs] by (simp add: length_remove1)

lemma saveTracksToStorage_frame:
  "pm_tracks (saveTracksToStorage rd fits ts p) = pm_tracks p \<and>
   pm_currentTrack (saveTracksToStorage rd fits ts p) = pm_currentTrack p \<and>
   pm_isPlaying (saveTracksToStorage rd fits ts p) = pm_isPlaying p"
  by (simp add: saveTracksToStorage_def split: option.splits)

text \<open>
  C10. Deleting an id that is not the current track's changes the track list only: the
  tracks with that id are filtered out and every other field of the state is as before.
  With distinct ids and the id in the list, exactly that one track is removed.
\<close>

theorem delete_other_frame:
  "(map_option track_id (currentTrack s) \<noteq> Some d \<longrightarrow>
      App_deleteTrack d s = s\<lparr>tracks := filter (\<lambda>t. track_id t \<noteq> d) (tracks s)\<rparr> \<and>
      (distinct (map track_id (tracks s)) \<and> t \<in> set (tracks s) \<and> track_id t = d \<longrightarrow>
         tracks (App_deleteTrack d s) = remove1 t (tracks s) \<and>
         length (tracks (App_deleteTrack d s)) + 1 = length (tracks s))) \<and>
   (map_option track_id (ap_currentTrack a) \<noteq> Some e \<longrightarrow>
      AP_deleteTrack e a = a\<lparr>audioFiles := filter (\<lambda>f. track_id f \<noteq> e) (audioFiles a)\<rparr> \<and>
      (distinct (map track_id (audioFiles a)) \<and> u \<in> set (audioFiles a) \<and> track_id u = e \<longrightarrow>
         audioFiles (AP_deleteTrack e a) = remove1 u (audioFiles a) \<and>
         length (audioFiles (AP_deleteTrack e a)) + 1 = length (audioFiles a))) \<and>
   (map_option pm_id (pm_currentTrack p) \<noteq> Some g \<longrightarrow>
      pm_currentTrack (PM_deleteTrack rd fits g p) = pm_currentTrack p \<and>
      pm_isPlaying (PM_deleteTrack rd fits g p) = pm_isPlaying p \<and>
      pm_tracks (PM_deleteTrack rd fits g p) = filter (\<lambda>t. pm_id t \<noteq> g) (pm_tracks p) \<and>
      (distinct (map pm_id (pm_tracks p)) \<and> w \<in> set (pm_tracks p) \<and> pm_id w = g \<longrightarrow>
         pm_tracks (PM_deleteTrack rd fits g p) = remove1 w (pm_tracks p) \<and>
         length (pm_tracks (PM_deleteTrack rd fits g p)) + 1 = length (pm_tracks p)))"
proof (intro conjI impI)
  assume "map_option track_id (currentTrack s) \<noteq> Some d"
  then show eq: "App_deleteTrack d s = s\<lparr>tracks := filter (\<lambda>t. track_id t \<noteq> d) (tracks s)\<rparr>"
    by (cases "currentTrack s") (simp_all add: App_deleteTrack_def Let_def)
  assume h: "distinct (map track_id (tracks s)) \<and> t \<in> set (tracks s) \<and> track_id t = d"
  with filter_is_remove1 [of track_id "tracks s" t] eq
  show r: "tracks (App_deleteTrack d s) = remove1 t (tracks s)" by auto
  from h show "length (tracks (App_deleteTrack d s)) + 1 = length (tracks s)"
    unfolding r using length_remove1_mem by auto
next
  assume "map_option track_id (ap_currentTrack a) \<noteq> Some e"
  then show eq: "AP_deleteTrack e a = a\<lparr>audioFiles := filter (\<lambda>f. track_id f \<noteq> e) (audioFiles a)\<rparr>"
    by (cases "ap_currentTrack a") (simp_all add: AP_deleteTrack_def Let_def)
  assume h: "distinct (map track_id (audioFiles a)) \<and> u \<in> set (audioFiles a) \<and> track_id u = e"
  with filter_is_remove1 [of track_id "audioFiles a" u] eq
  show r: "audioFiles (AP_deleteTrack e a) = remove1 u (audioFiles a)" by auto
  from h show "length (audioFiles (AP_deleteTrack e a)) + 1 = length (audioFiles a)"
    unfolding r using length_remove1_mem by auto
next
  assume c: "map_option pm_id (pm_currentTrack p) \<noteq> Some g"
  then show "pm_currentTrack (PM_deleteTrack rd fits g p) = pm_currentTrack p"
    and "pm_isPlaying (PM_deleteTrack rd fits g p) = pm_isPlaying p"
    and eq: "pm_tracks (PM_deleteTrack rd fits g p) = filter (\<lambda>t. pm_id t \<noteq> g) (pm_tracks p)"
    by (cases "pm_currentTrack p"; simp add: PM_deleteTrack_def Let_def saveTracksToStorage_frame)+
  assume h: "distinct (map pm_id (pm_tracks p)) \<and> w \<in> set (pm_tracks p) \<and> pm_id w = g"
  with filter_is_remove1 [of pm_id "pm_tracks p" w] eq
  show r: "pm_tracks (PM_deleteTrack rd fits g p) = remove1 w (pm_tracks p)" by auto
  from h show "length (pm_tracks (PM_deleteTrack rd fits g p)) + 1 = length (pm_tracks p)"
    unfolding r using length_remove1_mem by auto
qed


theorem delete_other_frame_witness:
  "App_deleteTrack (track_id track_B) App_playing_A = App_playing_A\<lparr>tracks := [track_A]\<rparr> \<and>
   AP_deleteTrack (track_id file_B) AP_playing_A = AP_playing_A\<lparr>audioFiles := [file_A]\<rparr> \<and>
   pm_tracks (PM_deleteTrack demo_readAsDataURL demo_fits (pm_id pm_track_B) PM_playing_A)
     = [pm_track_A] \<and>
   pm_currentTrack (PM_deleteTrack demo_readAsDataURL demo_fits (pm_id pm_track_B) PM_playing_A)
     = Some pm_track_A \<and>
   pm_isPlaying (PM_deleteTrack demo_readAsDataURL demo_fits (pm_id pm_track_B) PM_playing_A)"
proof -
  have cur: "map_option track_id (currentTrack App_playing_A) \<noteq> Some (track_id track_B)"
    "map_option track_id (ap_currentTrack AP_playing_A) \<noteq> Some (track_id file_B)"
    "map_option pm_id (pm_currentTrack PM_playing_A) \<noteq> Some (pm_id pm_track_B)"
    by (simp_all add: App_playing_A_def AP_playing_A_def PM_playing_A_def PM_playing_B_def demo_ids)
  have lists: "tracks App_playing_A = [track_A, track_B]" "audioFiles AP_playing_A = [file_A, file_B]"
    "pm_tracks PM_playing_A = [pm_track_A, pm_track_B]"
    "pm_currentTrack PM_playing_A = Some pm_track_A" "pm_isPlaying PM_playing_A"
    by (simp_all add: App_playing_A_def AP_playing_A_def PM_playing_A_def PM_playing_B_def)
  have ne: "track_A \<noteq> track_B" "file_A \<noteq> file_B" "pm_track_A \<noteq> pm_track_B"
    using demo_ids by auto
  note T = delete_other_frame
             [of App_playing_A "track_id track_B" track_B AP_playing_A "track_id file_B" file_B
                 PM_playing_A "pm_id pm_track_B" demo_readAsDataURL demo_fits pm_track_B]
  from T cur have
    1: "App_deleteTrack (track_id track_B) App_playing_A
        = App_playing_A\<lparr>tracks := filter (\<lambda>t. track_id t \<noteq> track_id track_B) (tracks App_playing_A)\<rparr>"
    and 2: "AP_deleteTrack (track_id file_B) AP_playing_A
        = AP_playing_A\<lparr>audioFiles := filter (\<lambda>f. track_id f \<noteq> track_id file_B) (audioFiles AP_playing_A)\<rparr>"
    and 3: "pm_currentTrack (PM_deleteTrack demo_readAsDataURL demo_fits (pm_id pm_track_B) PM_playing_A)
        = pm_currentTrack PM_playing_A"
    and 4: "pm_isPlaying (PM_deleteTrack demo_readAsDataURL demo_fits (pm_id pm_track_B) PM_playing_A)
        = pm_isPlaying PM_playing_A"
    by blast+
  have d: "distinct (map pm_id (pm_tracks PM_playing_A)) \<and> pm_track_B \<in> set (pm_tracks PM_playing_A) \<and>
           pm_id pm_track_B = pm_id pm_track_B"
    by (simp add: lists demo_ids)
  from T cur(3) d have
    5: "pm_tracks (PM_deleteTrack demo_readAsDataURL demo_fits (pm_id pm_track_B) PM_playing_A)
        = remove1 pm_track_B (pm_tracks PM_playing_A)"
    by blast
  have "App_deleteTrack (track_id track_B) App_playing_A = App_playing_A\<lparr>tracks := [track_A]\<rparr>"
    unfolding 1 by (simp add: lists demo_ids)
  moreover have "AP_deleteTrack (track_id file_B) AP_playing_A = AP_playing_A\<lparr>audioFiles := [file_A]\<rparr>"
    unfolding 2 by (simp add: lists demo_ids)
  moreover have "pm_tracks (PM_deleteTrack demo_readAsDataURL demo_fits (pm_id pm_track_B) PM_playing_A)
        = [pm_track_A]"
    unfolding 5 using ne by (simp add: lists)
  ultimately show ?thesis
    using 3 4 lists by simp
qed

end
